theory Spec2Isabelle
  imports Main "HOL-Library.Word"
begin

section \<open>Go values\<close>

text \<open>
  The client is Go code. A Go \<^verbatim>\<open>error\<close> is nil or a value with a message; a pointer is nil
  or points at a struct; a slice is nil or a sequence. All three are options here, with
  \<open>None\<close> for nil. A call either returns a value or panics (a nil pointer dereference
  is a run-time panic that nothing in this repository recovers).

  Go's \<^verbatim>\<open>string\<close> is a byte sequence, as \<open>string\<close> is here. Go's \<^verbatim>\<open>int\<close> (32 or 64
  bits by platform) is only stored, decoded and formatted by this code, never computed
  with, so it is \<open>int\<close>; \<^verbatim>\<open>uint64\<close> is a 64-bit word. A \<^verbatim>\<open>time.Time\<close> is an instant,
  counted here in nanoseconds from the zero \<^verbatim>\<open>time.Time\<close>; the code never inspects it.
\<close>

datatype error = errorString string

definition errors_New :: "string \<Rightarrow> error" where
  "errors_New msg = errorString msg"

datatype 'a outcome = Panic | Return 'a

type_synonym 'a slice = "'a list option"

type_synonym time_Time = int

section \<open>Data model of the client (first file of \<^verbatim>\<open>src/unnamed/part_000\<close>)\<close>

text \<open>
  An embedded struct whose fields are promoted is a record extension
  (\<^verbatim>\<open>StatusResponse\<close> embeds \<^verbatim>\<open>HasOk\<close>). \<^verbatim>\<open>OrderResponse\<close> embeds two structs; the
  second, \<^verbatim>\<open>OrderRequest\<close>, is the field Go names after the type. Field names that
  several structs share (\<^verbatim>\<open>Symbol\<close>, \<^verbatim>\<open>Price\<close>, \<^verbatim>\<open>Qty\<close>, \<^verbatim>\<open>Timestamp\<close>) are written
  qualified by their record below.
\<close>

record HasOk =
  Ok :: bool

record StatusResponse = HasOk +
  Error :: string

record VenueStatusResponse = HasOk +
  Venue :: string

record SymbolInfo =
  Name :: string
  Symbol :: string

record VenueStocksResponse = HasOk +
  Symbols :: "SymbolInfo slice"

record Order =
  Price :: "64 word"
  Quantity :: "64 word"

record OrderbookEntry = Order +
  IsBuy :: bool

record OrderbookResponse = VenueStatusResponse +
  Symbol :: string
  Bids :: "OrderbookEntry slice"
  Asks :: "OrderbookEntry slice"
  Timestamp :: time_Time

record OrderRequest =
  Account :: string
  OrderType :: string
  Direction :: string
  Qty :: int
  Price :: int

record Fill =
  Qty :: int
  Price :: int
  Timestamp :: time_Time

record OrderResponse = VenueStatusResponse +
  OrderRequest :: OrderRequest
  OriginalQty :: int
  Id :: int
  Timestamp :: time_Time
  Fills :: "Fill slice"
  TotalFilled :: int
  Open :: bool

record OrdersStatusResponse = VenueStatusResponse +
  Orders :: "OrderResponse slice"

record QuoteResponse = VenueStatusResponse +
  Symbol :: string
  Bid :: int
  BidSize :: int
  BidDepth :: int
  AskSize :: int
  AskDepth :: int
  Last :: int
  LastSize :: int
  LastTrade :: time_Time
  QuoteTime :: time_Time

record Client =
  apiKey :: string

text \<open>\<^verbatim>\<open>new(T)\<close>: a pointer to the zero value of \<^verbatim>\<open>T\<close>.\<close>

definition new_StatusResponse :: StatusResponse where
  "new_StatusResponse = \<lparr>Ok = False, Error = ''''\<rparr>"

definition new_VenueStatusResponse :: VenueStatusResponse where
  "new_VenueStatusResponse = \<lparr>Ok = False, Venue = ''''\<rparr>"

definition new_VenueStocksResponse :: VenueStocksResponse where
  "new_VenueStocksResponse = \<lparr>Ok = False, Symbols = None\<rparr>"

definition new_OrderbookResponse :: OrderbookResponse where
  "new_OrderbookResponse =
     \<lparr>Ok = False, Venue = '''', OrderbookResponse.Symbol = '''', Bids = None, Asks = None,
      OrderbookResponse.Timestamp = 0\<rparr>"

definition new_OrderRequest :: OrderRequest where
  "new_OrderRequest =
     \<lparr>Account = '''', OrderType = '''', Direction = '''', OrderRequest.Qty = 0,
      OrderRequest.Price = 0\<rparr>"

definition new_OrderResponse :: OrderResponse where
  "new_OrderResponse =
     \<lparr>Ok = False, Venue = '''', OrderRequest = new_OrderRequest, OriginalQty = 0, Id = 0,
      OrderResponse.Timestamp = 0, Fills = None, TotalFilled = 0, Open = False\<rparr>"

definition new_OrdersStatusResponse :: OrdersStatusResponse where
  "new_OrdersStatusResponse = \<lparr>Ok = False, Venue = '''', Orders = None\<rparr>"

definition new_QuoteResponse :: QuoteResponse where
  "new_QuoteResponse =
     \<lparr>Ok = False, Venue = '''', QuoteResponse.Symbol = '''', Bid = 0, BidSize = 0,
      BidDepth = 0, AskSize = 0, AskDepth = 0, Last = 0, LastSize = 0, LastTrade = 0,
      QuoteTime = 0\<rparr>"

section \<open>The libraries the client calls\<close>

subsection \<open>\<^verbatim>\<open>net/http\<close> and \<^verbatim>\<open>encoding/json\<close>\<close>

text \<open>
  The network and the two libraries are the environment of the client, a parameter of
  every operation:
  \<^item> \<open>url_Parse\<close>: whether \<^verbatim>\<open>http.NewRequest\<close> accepts a URL (the three methods used
    are always accepted);
  \<^item> \<open>RoundTrip\<close>: what the default client's \<^verbatim>\<open>Do\<close> returns for a request, the Go pair
    \<^verbatim>\<open>(resp, err)\<close>. On a connection error \<^verbatim>\<open>resp\<close> is nil; a status that is not 2xx is
    no error to \<^verbatim>\<open>net/http\<close>;
  \<^item> \<open>Decode\<close>: what \<^verbatim>\<open>json.NewDecoder(body).Decode\<close> does to a target struct: the error
    it returns and what it stored. The JSON literal \<^verbatim>\<open>null\<close> stores no struct: it sets a
    pointer target to nil and leaves any other target alone;
  \<^item> \<open>Marshal\<close>: \<^verbatim>\<open>json.Marshal\<close> of an order request, the Go pair \<^verbatim>\<open>(bytes, err)\<close>.
  The type parameter is the struct the operation decodes into.
\<close>

record Request =
  Method :: string
  URL :: string
  Header :: "(string \<times> string) list"
  Body :: "string option"

record Response =
  StatusCode :: int
  Body :: string

datatype 's decoded = Null | Value 's

record 's World =
  url_Parse :: "string \<Rightarrow> error option"
  RoundTrip :: "Request \<Rightarrow> Response option \<times> error option"
  Decode :: "string \<Rightarrow> 's \<Rightarrow> 's decoded \<times> error option"
  Marshal :: "OrderRequest \<Rightarrow> string \<times> error option"

definition MethodGet :: string where
  "MethodGet = ''GET''"

definition MethodPost :: string where
  "MethodPost = ''POST''"

definition MethodDelete :: string where
  "MethodDelete = ''DELETE''"

text \<open>\<^verbatim>\<open>http.NewRequest(method, url, body)\<close>: \<open>Inl\<close> is \<^verbatim>\<open>(nil, err)\<close>, \<open>Inr\<close> is \<^verbatim>\<open>(req, nil)\<close>.\<close>

definition http_NewRequest ::
  "'s World \<Rightarrow> string \<Rightarrow> string \<Rightarrow> string option \<Rightarrow> error + Request" where
  "http_NewRequest w method url body =
     (case url_Parse w url of
        Some e \<Rightarrow> Inl e
      | None \<Rightarrow> Inr \<lparr>Method = method, URL = url, Header = [], Request.Body = body\<rparr>)"

text \<open>
  \<^verbatim>\<open>http.DefaultClient.Do(req)\<close>. Every function of this section returns, with its
  result, the requests it handed to the network.
\<close>

definition client_Do ::
  "'s World \<Rightarrow> Request \<Rightarrow> Request list \<times> (Response option \<times> error option)" where
  "client_Do w req = ([req], RoundTrip w req)"

text \<open>\<^verbatim>\<open>http.Get(url)\<close>.\<close>

definition http_Get ::
  "'s World \<Rightarrow> string \<Rightarrow> Request list \<times> (Response option \<times> error option)" where
  "http_Get w url =
     (case http_NewRequest w MethodGet url None of
        Inl e \<Rightarrow> ([], (None, Some e))
      | Inr req \<Rightarrow> client_Do w req)"

text \<open>
  \<^verbatim>\<open>http.Post(url, contentType, body)\<close>: the second argument is the value of the
  \<^verbatim>\<open>Content-Type\<close> header, the third the request body.
\<close>

definition http_Post ::
  "'s World \<Rightarrow> string \<Rightarrow> string \<Rightarrow> string option \<Rightarrow>
     Request list \<times> (Response option \<times> error option)" where
  "http_Post w url contentType body =
     (case http_NewRequest w MethodPost url body of
        Inl e \<Rightarrow> ([], (None, Some e))
      | Inr req \<Rightarrow> client_Do w (req\<lparr>Header := [(''Content-Type'', contentType)]\<rparr>))"

text \<open>
  Decoding into \<^verbatim>\<open>&s\<close>, a pointer to the pointer \<^verbatim>\<open>s\<close> (directly, or wrapped in an
  \<^verbatim>\<open>interface{}\<close> as \<^verbatim>\<open>PerformRequest\<close> does): \<^verbatim>\<open>null\<close> sets \<^verbatim>\<open>s\<close> to nil. The result is
  \<^verbatim>\<open>s\<close> after the call.
\<close>

definition Decode_into_pointer ::
  "'s World \<Rightarrow> string \<Rightarrow> 's \<Rightarrow> 's option \<times> error option" where
  "Decode_into_pointer w body s =
     (case Decode w body s of
        (Null, err) \<Rightarrow> (None, err)
      | (Value v, err) \<Rightarrow> (Some v, err))"

text \<open>
  Decoding into \<^verbatim>\<open>s\<close> itself, a pointer to the struct: \<^verbatim>\<open>null\<close> changes nothing. The
  result is the struct \<^verbatim>\<open>s\<close> points at after the call.
\<close>

definition Decode_into_struct :: "'s World \<Rightarrow> string \<Rightarrow> 's \<Rightarrow> 's \<times> error option" where
  "Decode_into_struct w body s =
     (case Decode w body s of
        (Null, err) \<Rightarrow> (s, err)
      | (Value v, err) \<Rightarrow> (v, err))"

subsection \<open>\<^verbatim>\<open>fmt.Sprintf\<close>\<close>

text \<open>
  The templates of this repository use the verbs \<^verbatim>\<open>%s\<close> and \<^verbatim>\<open>%d\<close> only, each call
  with as many operands as verbs and of the verb's type. The other branches follow what
  \<^verbatim>\<open>fmt\<close> prints for a wrong, missing or extra operand; no call reaches them.
\<close>

datatype operand = StrArg string | IntArg int

fun digits10 :: "nat \<Rightarrow> string" where
  "digits10 n =
     (if n < 10 then [''0123456789'' ! n]
      else digits10 (n div 10) @ [''0123456789'' ! (n mod 10)])"

declare digits10.simps [simp del]

definition Itoa :: "int \<Rightarrow> string" where
  "Itoa i = (if i < 0 then CHR ''-'' # digits10 (nat (- i)) else digits10 (nat i))"

fun operand_text :: "operand \<Rightarrow> string" where
  "operand_text (StrArg s) = ''string='' @ s"
| "operand_text (IntArg i) = ''int='' @ Itoa i"

fun verb :: "char \<Rightarrow> operand \<Rightarrow> string" where
  "verb v (StrArg s) = (if v = CHR ''s'' then s else ''%!'' @ [v] @ ''(string='' @ s @ '')'')"
| "verb v (IntArg i) = (if v = CHR ''d'' then Itoa i else ''%!'' @ [v] @ ''(int='' @ Itoa i @ '')'')"

fun extra :: "operand list \<Rightarrow> string" where
  "extra [] = []"
| "extra [a] = operand_text a"
| "extra (a # b # as) = operand_text a @ '', '' @ extra (b # as)"

fun Sprintf :: "string \<Rightarrow> operand list \<Rightarrow> string" where
  "Sprintf [] [] = []"
| "Sprintf [] (a # as) = ''%!(EXTRA '' @ extra (a # as) @ '')''"
| "Sprintf (c # fmt) ops =
     (if c \<noteq> CHR ''%'' then c # Sprintf fmt ops
      else (case fmt of
              [] \<Rightarrow> ''%!(NOVERB)'' @ Sprintf [] ops
            | v # fmt' \<Rightarrow>
                (if v = CHR ''%'' then CHR ''%'' # Sprintf fmt' ops
                 else (case ops of
                         [] \<Rightarrow> ''%!'' @ [v] @ ''(MISSING)'' @ Sprintf fmt' []
                       | a # as \<Rightarrow> verb v a @ Sprintf fmt' as))))"

section \<open>The client (first file of \<^verbatim>\<open>src/unnamed/part_000\<close>)\<close>

subsection \<open>URL templates\<close>

definition HEARTBEAT_URL :: string where
  "HEARTBEAT_URL = ''https://api.stockfighter.io/ob/api/heartbeat''"

definition VENUE_HEARTBEAT_URL :: string where
  "VENUE_HEARTBEAT_URL = ''https://api.stockfighter.io/ob/api/venues/%s/heartbeat''"

definition VENUE_STOCKS_URL :: string where
  "VENUE_STOCKS_URL = ''https://api.stockfighter.io/ob/api/venues/%s/stocks''"

definition VENUE_ORDERBOOK_URL :: string where
  "VENUE_ORDERBOOK_URL = ''https://api.stockfighter.io/ob/api/venues/%s/stocks/%s''"

definition VENUE_QUOTE_URL :: string where
  "VENUE_QUOTE_URL = ''https://api.stockfighter.io/ob/api/venues/%s/stocks/%s/quote''"

definition VENUE_ORDERS_URL :: string where
  "VENUE_ORDERS_URL = ''https://api.stockfighter.io/ob/api/venues/%s/stocks/%s/orders''"

definition VENUE_ORDER_URL :: string where
  "VENUE_ORDER_URL = ''https://api.stockfighter.io/ob/api/venues/%s/stocks/%s/orders/%d''"

definition ACCT_EVERY_ORDERS_URL :: string where
  "ACCT_EVERY_ORDERS_URL = ''https://api.stockfighter.io/ob/api/venues/%s/accounts/%s/orders''"

definition ACCT_STOCK_ORDERS_URL :: string where
  "ACCT_STOCK_ORDERS_URL =
     ''https://api.stockfighter.io/ob/api/venues/%s/accounts/%s/stocks/%s/orders''"

subsection \<open>\<^verbatim>\<open>PerformRequest\<close>\<close>

text \<open>
  The code after the \<^verbatim>\<open>switch\<close>, for the outer \<^verbatim>\<open>resp\<close> and \<^verbatim>\<open>err\<close>. With \<^verbatim>\<open>err\<close> set, the
  message is formatted from \<^verbatim>\<open>resp.StatusCode\<close>, which dereferences \<^verbatim>\<open>resp\<close>. The result is
  the returned error with the caller's pointer \<^verbatim>\<open>s\<close> after the call (\<^verbatim>\<open>js\<close> holds \<^verbatim>\<open>&s\<close>).
  Closing the response body is not modelled.
\<close>

definition after_switch ::
  "'s World \<Rightarrow> Response option \<Rightarrow> error option \<Rightarrow> 's \<Rightarrow> (error option \<times> 's option) outcome"
  where
  "after_switch w resp err js =
     (if err \<noteq> None then
        (case resp of
           None \<Rightarrow> Panic
         | Some r \<Rightarrow>
             Return (Some (errors_New (Sprintf ''Request failed: %d'' [IntArg (StatusCode r)])),
                     Some js))
      else
        (case resp of
           None \<Rightarrow> Panic
         | Some r \<Rightarrow>
             (case Decode_into_pointer w (Response.Body r) js of
                (s, err') \<Rightarrow> if err' \<noteq> None then Return (err', s) else Return (None, s))))"

text \<open>
  \<^verbatim>\<open>body\<close> is a \<^verbatim>\<open>*string\<close>, dereferenced in the POST branch. In the DELETE branch
  \<^verbatim>\<open>req, err :=\<close> declares a new \<^verbatim>\<open>err\<close>, so both errors of that branch are returned as
  they are and the outer \<^verbatim>\<open>err\<close> stays nil. With any other method \<^verbatim>\<open>resp\<close> stays nil.
\<close>

definition PerformRequest ::
  "'s World \<Rightarrow> string \<Rightarrow> string \<Rightarrow> string option \<Rightarrow> 's \<Rightarrow>
     Request list \<times> (error option \<times> 's option) outcome" where
  "PerformRequest w url method body js =
     (if method = MethodGet then
        (case http_Get w url of
           (sent, (resp, err)) \<Rightarrow> (sent, after_switch w resp err js))
      else if method = MethodPost then
        (case body of
           None \<Rightarrow> ([], Panic)
         | Some b \<Rightarrow>
             (case http_Post w url b None of
                (sent, (resp, err)) \<Rightarrow> (sent, after_switch w resp err js)))
      else if method = MethodDelete then
        (case http_NewRequest w method url None of
           Inl err \<Rightarrow> ([], Return (Some err, Some js))
         | Inr req \<Rightarrow>
             (case client_Do w req of
                (sent, (resp, err)) \<Rightarrow>
                  (if err \<noteq> None then (sent, Return (err, Some js))
                   else (sent, after_switch w resp None js))))
      else ([], after_switch w None None js))"

subsection \<open>The endpoint operations\<close>

text \<open>
  Each operation returns the requests it sent and its outcome. \<^verbatim>\<open>s\<close> is the pointer that
  \<^verbatim>\<open>PerformRequest\<close> decoded through: reading \<^verbatim>\<open>s.Ok\<close> dereferences it. The receiver \<^verbatim>\<open>c\<close>
  is the first argument.
\<close>

definition Ping :: "Client \<Rightarrow> StatusResponse World \<Rightarrow> Request list \<times> bool outcome" where
  "Ping c w =
     (case PerformRequest w HEARTBEAT_URL MethodGet None new_StatusResponse of
        (sent, Panic) \<Rightarrow> (sent, Panic)
      | (sent, Return (err, s)) \<Rightarrow>
          (sent,
           if err \<noteq> None then Return False
           else (case s of
                   None \<Rightarrow> Panic
                 | Some v \<Rightarrow> if Ok v \<noteq> True then Return False else Return True)))"

definition PingVenue ::
  "Client \<Rightarrow> VenueStatusResponse World \<Rightarrow> string \<Rightarrow> Request list \<times> bool outcome" where
  "PingVenue c w venue =
     (case PerformRequest w (Sprintf VENUE_HEARTBEAT_URL [StrArg venue]) MethodGet None
             new_VenueStatusResponse of
        (sent, Panic) \<Rightarrow> (sent, Panic)
      | (sent, Return (err, s)) \<Rightarrow>
          (sent,
           if err \<noteq> None then Return False
           else (case s of
                   None \<Rightarrow> Panic
                 | Some v \<Rightarrow> if Ok v \<noteq> True then Return False else Return True)))"

definition FetchStocks ::
  "Client \<Rightarrow> VenueStocksResponse World \<Rightarrow> string \<Rightarrow>
     Request list \<times> SymbolInfo slice outcome" where
  "FetchStocks c w venue =
     (case PerformRequest w (Sprintf VENUE_STOCKS_URL [StrArg venue]) MethodGet None
             new_VenueStocksResponse of
        (sent, Panic) \<Rightarrow> (sent, Panic)
      | (sent, Return (err, s)) \<Rightarrow>
          (sent,
           if err \<noteq> None then Return None
           else (case s of
                   None \<Rightarrow> Panic
                 | Some v \<Rightarrow> if Ok v \<noteq> True then Return None else Return (Symbols v))))"

definition FetchOrder ::
  "Client \<Rightarrow> OrderResponse World \<Rightarrow> string \<Rightarrow> string \<Rightarrow> int \<Rightarrow>
     Request list \<times> OrderResponse option outcome" where
  "FetchOrder c w venue stock id' =
     (case PerformRequest w (Sprintf VENUE_ORDER_URL [StrArg venue, StrArg stock, IntArg id'])
             MethodGet None new_OrderResponse of
        (sent, Panic) \<Rightarrow> (sent, Panic)
      | (sent, Return (err, s)) \<Rightarrow>
          (sent,
           if err \<noteq> None then Return None
           else (case s of
                   None \<Rightarrow> Panic
                 | Some v \<Rightarrow>
                     if Ok v \<noteq> True then Return None
                     else if Venue v \<noteq> venue then Return None
                     else Return (Some v))))"

definition FetchOrderbook ::
  "Client \<Rightarrow> OrderbookResponse World \<Rightarrow> string \<Rightarrow> string \<Rightarrow>
     Request list \<times> OrderbookResponse option outcome" where
  "FetchOrderbook c w venue stock =
     (case PerformRequest w (Sprintf VENUE_ORDERBOOK_URL [StrArg venue, StrArg stock])
             MethodGet None new_OrderbookResponse of
        (sent, Panic) \<Rightarrow> (sent, Panic)
      | (sent, Return (err, s)) \<Rightarrow>
          (sent,
           if err \<noteq> None then Return None
           else (case s of
                   None \<Rightarrow> Panic
                 | Some v \<Rightarrow>
                     if Ok v \<noteq> True then Return None
                     else if Venue v \<noteq> venue then Return None
                     else if OrderbookResponse.Symbol v \<noteq> stock then Return None
                     else Return (Some v))))"

definition FetchAcctOrders ::
  "Client \<Rightarrow> OrdersStatusResponse World \<Rightarrow> string \<Rightarrow> string \<Rightarrow>
     Request list \<times> OrderResponse slice outcome" where
  "FetchAcctOrders c w venue account =
     (case PerformRequest w (Sprintf ACCT_EVERY_ORDERS_URL [StrArg account, StrArg venue])
             MethodGet None new_OrdersStatusResponse of
        (sent, Panic) \<Rightarrow> (sent, Panic)
      | (sent, Return (err, s)) \<Rightarrow>
          (sent,
           if err \<noteq> None then Return None
           else (case s of
                   None \<Rightarrow> Panic
                 | Some v \<Rightarrow>
                     if Ok v \<noteq> True then Return None
                     else if Venue v \<noteq> venue then Return None
                     else Return (Orders v))))"

definition FetchAcctStockOrders ::
  "Client \<Rightarrow> OrdersStatusResponse World \<Rightarrow> string \<Rightarrow> string \<Rightarrow> string \<Rightarrow>
     Request list \<times> OrderResponse slice outcome" where
  "FetchAcctStockOrders c w venue stock account =
     (case PerformRequest w
             (Sprintf ACCT_STOCK_ORDERS_URL [StrArg account, StrArg venue, StrArg stock])
             MethodGet None new_OrdersStatusResponse of
        (sent, Panic) \<Rightarrow> (sent, Panic)
      | (sent, Return (err, s)) \<Rightarrow>
          (sent,
           if err \<noteq> None then Return None
           else (case s of
                   None \<Rightarrow> Panic
                 | Some v \<Rightarrow>
                     if Ok v \<noteq> True then Return None
                     else if Venue v \<noteq> venue then Return None
                     else Return (Orders v))))"

text \<open>
  \<^verbatim>\<open>PlaceOrder\<close> passes the serialized order as \<^verbatim>\<open>body\<close>, assigns the error of
  \<^verbatim>\<open>PerformRequest\<close> and ends with \<^verbatim>\<open>return nil\<close>.
\<close>

definition PlaceOrder ::
  "Client \<Rightarrow> OrderResponse World \<Rightarrow> string \<Rightarrow> string \<Rightarrow> OrderRequest \<Rightarrow>
     Request list \<times> OrderResponse option outcome" where
  "PlaceOrder c w venue stock order =
     (case Marshal w order of
        (payload, err) \<Rightarrow>
          if err \<noteq> None then ([], Return None)
          else (case PerformRequest w (Sprintf VENUE_ORDERS_URL [StrArg venue, StrArg stock])
                       MethodPost (Some payload) new_OrderResponse of
                  (sent, Panic) \<Rightarrow> (sent, Panic)
                | (sent, Return (err, s)) \<Rightarrow> (sent, Return None)))"

definition FetchQuote ::
  "Client \<Rightarrow> QuoteResponse World \<Rightarrow> string \<Rightarrow> string \<Rightarrow>
     Request list \<times> QuoteResponse option outcome" where
  "FetchQuote c w venue stock =
     (case PerformRequest w (Sprintf VENUE_QUOTE_URL [StrArg venue, StrArg stock])
             MethodGet None new_QuoteResponse of
        (sent, Panic) \<Rightarrow> (sent, Panic)
      | (sent, Return (err, s)) \<Rightarrow>
          (sent,
           if err \<noteq> None then Return None
           else (case s of
                   None \<Rightarrow> Panic
                 | Some v \<Rightarrow> if Ok v \<noteq> True then Return None else Return (Some v))))"

definition CancelOrder ::
  "Client \<Rightarrow> OrderResponse World \<Rightarrow> string \<Rightarrow> string \<Rightarrow> int \<Rightarrow>
     Request list \<times> bool outcome" where
  "CancelOrder c w venue stock id' =
     (case PerformRequest w (Sprintf VENUE_ORDER_URL [StrArg venue, StrArg stock, IntArg id'])
             MethodDelete None new_OrderResponse of
        (sent, Panic) \<Rightarrow> (sent, Panic)
      | (sent, Return (err, s)) \<Rightarrow>
          (sent,
           if err \<noteq> None then Return False
           else (case s of
                   None \<Rightarrow> Panic
                 | Some v \<Rightarrow>
                     if Ok v \<noteq> True then Return False
                     else if Open v \<noteq> False then Return False
                     else Return True)))"

text \<open>\<^verbatim>\<open>Run\<close> has an empty body; \<^verbatim>\<open>main\<close> stores the \<^verbatim>\<open>-key\<close> flag in a client and runs it.\<close>

definition Run :: "Client \<Rightarrow> Request list \<times> unit outcome" where
  "Run client = ([], Return ())"

definition main :: "string \<Rightarrow> Request list \<times> unit outcome" where
  "main key = Run \<lparr>apiKey = key\<rparr>"

section \<open>The earlier draft (\<^verbatim>\<open>src/main.go\<close>)\<close>

text \<open>
  \<^verbatim>\<open>src/main.go\<close> is an earlier draft of the same client, with the HTTP call written out
  in each operation and a check of the status code. Its \<^verbatim>\<open>HasOk\<close>, \<^verbatim>\<open>StatusResponse\<close>,
  \<^verbatim>\<open>Order\<close> and \<^verbatim>\<open>OrderRequest\<close> are the structs above; the others differ and carry the
  suffix \<open>_main\<close>, as does the one URL template with another value. The second file of
  \<^verbatim>\<open>src/unnamed/part_000\<close> has the same four operations, line for line, over the structs
  of the first file. Printing the welcome line in \<^verbatim>\<open>Heartbeat\<close> is not modelled, nor is
  the draft's \<^verbatim>\<open>PlaceOrder\<close>, which builds an \<^verbatim>\<open>OrderRequest\<close> and sends nothing.
\<close>

record Symbol_main =
  Name :: string
  Symbol :: string

record StocksResponse = HasOk +
  Symbols :: "Symbol_main slice"

record OrderbookOrder = Order +
  IsBuy :: bool

record OrderResponse_main = HasOk +
  Symbol :: Symbol_main
  Bids :: "OrderbookOrder slice"
  Asks :: "OrderbookOrder slice"
  Timestamp :: time_Time

definition new_StocksResponse :: StocksResponse where
  "new_StocksResponse = \<lparr>Ok = False, StocksResponse.Symbols = None\<rparr>"

definition new_Symbol_main :: Symbol_main where
  "new_Symbol_main = \<lparr>Symbol_main.Name = '''', Symbol_main.Symbol = ''''\<rparr>"

definition new_OrderResponse_main :: OrderResponse_main where
  "new_OrderResponse_main =
     \<lparr>Ok = False, OrderResponse_main.Symbol = new_Symbol_main,
      OrderResponse_main.Bids = None, OrderResponse_main.Asks = None,
      OrderResponse_main.Timestamp = 0\<rparr>"

definition VENUE_ORDERS_URL_main :: string where
  "VENUE_ORDERS_URL_main = ''https://api.stockfighter.io/ob/api/venues/%s/stocks/%s''"

definition Heartbeat :: "Client \<Rightarrow> StatusResponse World \<Rightarrow> Request list \<times> bool outcome" where
  "Heartbeat c w =
     (case http_Get w HEARTBEAT_URL of
        (sent, (resp, err)) \<Rightarrow>
          (sent,
           if err \<noteq> None then Return False
           else (case resp of
                   None \<Rightarrow> Panic
                 | Some r \<Rightarrow>
                     if StatusCode r \<noteq> 200 then Return False
                     else (case Decode_into_pointer w (Response.Body r) new_StatusResponse of
                             (s, err') \<Rightarrow>
                               (case s of
                                  None \<Rightarrow> Panic
                                | Some v \<Rightarrow>
                                    if Ok v \<noteq> True then Return False else Return True)))))"

definition VenueHeartbeat ::
  "Client \<Rightarrow> StatusResponse World \<Rightarrow> string \<Rightarrow> Request list \<times> bool outcome" where
  "VenueHeartbeat c w venue =
     (case http_Get w (Sprintf VENUE_HEARTBEAT_URL [StrArg venue]) of
        (sent, (resp, err)) \<Rightarrow>
          (sent,
           if err \<noteq> None then Return False
           else (case resp of
                   None \<Rightarrow> Panic
                 | Some r \<Rightarrow>
                     if StatusCode r \<noteq> 200 then Return False
                     else (case Decode_into_pointer w (Response.Body r) new_StatusResponse of
                             (s, err') \<Rightarrow>
                               (case s of
                                  None \<Rightarrow> Panic
                                | Some v \<Rightarrow>
                                    if Ok v \<noteq> True then Return False else Return True)))))"

definition VenueStocks ::
  "Client \<Rightarrow> StocksResponse World \<Rightarrow> string \<Rightarrow> Request list \<times> Symbol_main slice outcome"
  where
  "VenueStocks c w venue =
     (case http_Get w (Sprintf VENUE_STOCKS_URL [StrArg venue]) of
        (sent, (resp, err)) \<Rightarrow>
          (sent,
           if err \<noteq> None then Return None
           else (case resp of
                   None \<Rightarrow> Panic
                 | Some r \<Rightarrow>
                     if StatusCode r \<noteq> 200 then Return None
                     else (case Decode_into_struct w (Response.Body r) new_StocksResponse of
                             (stocks, err') \<Rightarrow>
                               if err' \<noteq> None then Return None
                               else Return (StocksResponse.Symbols stocks)))))"

definition VenueOrders ::
  "Client \<Rightarrow> OrderResponse_main World \<Rightarrow> string \<Rightarrow> string \<Rightarrow>
     Request list \<times> OrderResponse_main option outcome" where
  "VenueOrders c w venue stock =
     (case http_Get w (Sprintf VENUE_ORDERS_URL_main [StrArg venue, StrArg stock]) of
        (sent, (resp, err)) \<Rightarrow>
          (sent,
           if err \<noteq> None then Return None
           else (case resp of
                   None \<Rightarrow> Panic
                 | Some r \<Rightarrow>
                     if StatusCode r \<noteq> 200 then Return None
                     else if StatusCode r \<noteq> 200 then Return None
                     else (case Decode_into_struct w (Response.Body r) new_OrderResponse_main of
                             (orders, err') \<Rightarrow> Return (Some orders)))))"

section \<open>Requests and environments of the statements\<close>

text \<open>The three requests \<^verbatim>\<open>PerformRequest\<close> builds, by method.\<close>

definition get_request :: "string \<Rightarrow> Request" where
  "get_request url = \<lparr>Method = ''GET'', URL = url, Header = [], Request.Body = None\<rparr>"

definition delete_request :: "string \<Rightarrow> Request" where
  "delete_request url = \<lparr>Method = ''DELETE'', URL = url, Header = [], Request.Body = None\<rparr>"

definition post_request :: "string \<Rightarrow> string \<Rightarrow> Request" where
  "post_request url contentType =
     \<lparr>Method = ''POST'', URL = url, Header = [(''Content-Type'', contentType)],
      Request.Body = None\<rparr>"

text \<open>
  Two concrete environments. In \<open>refusing\<close> every connection is refused: \<^verbatim>\<open>Do\<close> returns
  \<^verbatim>\<open>(nil, err)\<close>. In \<open>answering status body d\<close> the server answers every request with
  that status and body, and the decoder reads that body as \<open>d\<close>.

  Both serialize an order with \<open>marshal_text\<close>, which writes the fields in the layout of
  \<^verbatim>\<open>json.Marshal\<close> and copies the strings as they are. That is the output of
  \<^verbatim>\<open>json.Marshal\<close> for strings holding none of the characters it escapes (the quote, the
  backslash, \<^verbatim>\<open><\<close>, \<^verbatim>\<open>>\<close>, \<^verbatim>\<open>&\<close>, control characters and bytes that are not UTF-8); for
  other strings it stands in for it. No operation depends on the text of the payload, and
  the lemmas on the requests sent hold for every \<open>Marshal\<close>.
\<close>

definition marshal_text :: "OrderRequest \<Rightarrow> string \<times> error option" where
  \<open>marshal_text order =
     (''{"account":"'' @ Account order @ ''","orderType":"'' @ OrderType order @
      ''","direction":"'' @ Direction order @ ''","qty":'' @ Itoa (OrderRequest.Qty order) @
      '',"price":'' @ Itoa (OrderRequest.Price order) @ ''}'', None)\<close>

definition refusing :: "'s World" where
  "refusing =
     \<lparr>url_Parse = (\<lambda>url. None),
      RoundTrip = (\<lambda>req. (None, Some (errorString ''connection refused''))),
      Decode = (\<lambda>body s. (Value s, None)),
      Marshal = marshal_text\<rparr>"

definition answering :: "int \<Rightarrow> string \<Rightarrow> 's decoded \<Rightarrow> 's World" where
  "answering status body d =
     \<lparr>url_Parse = (\<lambda>url. None),
      RoundTrip = (\<lambda>req. (Some \<lparr>StatusCode = status, Response.Body = body\<rparr>, None)),
      Decode = (\<lambda>b s. if b = body then (d, None)
                        else (Value s, Some (errorString ''invalid character''))),
      Marshal = marshal_text\<rparr>"

text \<open>Response bodies of the examples.\<close>

definition body_closed :: string where
  \<open>body_closed = ''{"ok":true,"venue":"TESTEX","open":false}''\<close>

definition body_open :: string where
  \<open>body_open = ''{"ok":true,"venue":"TESTEX","open":true}''\<close>

definition body_other :: string where
  \<open>body_other = ''{"ok":true,"venue":"OTHEREX","open":false}''\<close>

definition body_book :: string where
  \<open>body_book = ''{"ok":true,"venue":"TESTEX","symbol":"FOOBAR"}''\<close>

definition body_other_book :: string where
  \<open>body_other_book = ''{"ok":true,"venue":"TESTEX","symbol":"BARFOO"}''\<close>

definition body_down :: string where
  \<open>body_down = ''{"ok":false,"error":"down"}''\<close>

definition body_up :: string where
  \<open>body_up = ''{"ok":true,"error":""}''\<close>

section \<open>What \<^verbatim>\<open>PerformRequest\<close> does, by method\<close>

lemma after_switch_nil: "after_switch w None err js = Panic"
  by (simp add: after_switch_def)

lemma after_switch_failed:
  "after_switch w (Some r) (Some e) js =
     Return (Some (errors_New (Sprintf ''Request failed: %d'' [IntArg (StatusCode r)])), Some js)"
  by (simp add: after_switch_def)

lemma after_switch_replied:
  "after_switch w (Some r) None js =
     (case Decode w (Response.Body r) js of
        (Null, e) \<Rightarrow> Return (e, None)
      | (Value v, e) \<Rightarrow> Return (e, Some v))"
  by (simp add: after_switch_def Decode_into_pointer_def split: prod.splits decoded.splits)

lemma http_Get_eq:
  "http_Get w url =
     (case url_Parse w url of
        Some e \<Rightarrow> ([], (None, Some e))
      | None \<Rightarrow> ([get_request url], RoundTrip w (get_request url)))"
  by (simp add: http_Get_def http_NewRequest_def client_Do_def get_request_def MethodGet_def
      split: option.splits)

lemma PerformRequest_Get:
  "PerformRequest w url MethodGet None js =
     (case url_Parse w url of
        Some e \<Rightarrow> ([], Panic)
      | None \<Rightarrow>
          ([get_request url],
           case RoundTrip w (get_request url) of
             (resp, err) \<Rightarrow> after_switch w resp err js))"
  by (simp add: PerformRequest_def http_Get_eq after_switch_nil split: option.splits prod.splits)

lemma PerformRequest_Delete:
  "PerformRequest w url MethodDelete None js =
     (case url_Parse w url of
        Some e \<Rightarrow> ([], Return (Some e, Some js))
      | None \<Rightarrow>
          ([delete_request url],
           case RoundTrip w (delete_request url) of
             (resp, Some e) \<Rightarrow> Return (Some e, Some js)
           | (resp, None) \<Rightarrow> after_switch w resp None js))"
  by (simp add: PerformRequest_def http_NewRequest_def client_Do_def delete_request_def
      MethodGet_def MethodPost_def MethodDelete_def split: option.splits prod.splits)

lemma PerformRequest_Post:
  "PerformRequest w url MethodPost (Some b) js =
     (case url_Parse w url of
        Some e \<Rightarrow> ([], Panic)
      | None \<Rightarrow>
          ([post_request url b],
           case RoundTrip w (post_request url b) of
             (resp, err) \<Rightarrow> after_switch w resp err js))"
  by (simp add: PerformRequest_def http_Post_def http_NewRequest_def client_Do_def
      post_request_def after_switch_nil MethodGet_def MethodPost_def
      split: option.splits prod.splits)

subsection \<open>In the two concrete environments\<close>

lemma PerformRequest_in_answering:
  "PerformRequest (answering status body d) url MethodGet None js =
     ([get_request url], Return (None, case d of Null \<Rightarrow> None | Value v \<Rightarrow> Some v))"
  by (simp add: PerformRequest_Get after_switch_replied answering_def split: decoded.splits)

lemma PerformRequest_in_refusing:
  "PerformRequest refusing url MethodGet None js = ([get_request url], Panic)"
  by (simp add: PerformRequest_Get after_switch_nil refusing_def)

lemma http_Get_answering:
  "http_Get (answering status body d) url =
     ([get_request url], (Some \<lparr>StatusCode = status, Response.Body = body\<rparr>, None))"
  by (simp add: http_Get_eq answering_def)

lemma http_Get_refusing:
  "http_Get refusing url = ([get_request url], (None, Some (errorString ''connection refused'')))"
  by (simp add: http_Get_eq refusing_def)

lemma Decode_into_struct_answering:
  "Decode_into_struct (answering status body (Value v)) body s = (v, None)"
  by (simp add: Decode_into_struct_def answering_def)

lemma Decode_into_pointer_answering:
  "Decode_into_pointer (answering status body (Value v)) body s = (Some v, None)"
  by (simp add: Decode_into_pointer_def answering_def)

subsection \<open>The requests sent\<close>

lemma sent_by_Get:
  "set (fst (PerformRequest w url MethodGet None js)) \<subseteq> {get_request url}"
  by (simp add: PerformRequest_Get split: option.splits)

lemma sent_by_Delete:
  "set (fst (PerformRequest w url MethodDelete None js)) \<subseteq> {delete_request url}"
  by (simp add: PerformRequest_Delete split: option.splits)

lemma sent_by_Post:
  "set (fst (PerformRequest w url MethodPost (Some b) js)) \<subseteq> {post_request url b}"
  by (simp add: PerformRequest_Post split: option.splits)

lemma sent_by_http_Get: "set (fst (http_Get w url)) \<subseteq> {get_request url}"
  by (simp add: http_Get_eq split: option.splits)

lemma Ping_sent: "set (fst (Ping c w)) \<subseteq> {get_request HEARTBEAT_URL}"
  using sent_by_Get [of w HEARTBEAT_URL new_StatusResponse]
  by (auto simp add: Ping_def split: prod.splits outcome.splits)

lemma PingVenue_sent:
  "set (fst (PingVenue c w venue)) \<subseteq> {get_request (Sprintf VENUE_HEARTBEAT_URL [StrArg venue])}"
  using sent_by_Get [of w "Sprintf VENUE_HEARTBEAT_URL [StrArg venue]" new_VenueStatusResponse]
  by (auto simp add: PingVenue_def split: prod.splits outcome.splits)

lemma FetchStocks_sent:
  "set (fst (FetchStocks c w venue)) \<subseteq> {get_request (Sprintf VENUE_STOCKS_URL [StrArg venue])}"
  using sent_by_Get [of w "Sprintf VENUE_STOCKS_URL [StrArg venue]" new_VenueStocksResponse]
  by (auto simp add: FetchStocks_def split: prod.splits outcome.splits)

lemma FetchOrderbook_sent:
  "set (fst (FetchOrderbook c w venue stock)) \<subseteq>
     {get_request (Sprintf VENUE_ORDERBOOK_URL [StrArg venue, StrArg stock])}"
  using sent_by_Get [of w "Sprintf VENUE_ORDERBOOK_URL [StrArg venue, StrArg stock]"
      new_OrderbookResponse]
  by (auto simp add: FetchOrderbook_def split: prod.splits outcome.splits)

lemma FetchQuote_sent:
  "set (fst (FetchQuote c w venue stock)) \<subseteq>
     {get_request (Sprintf VENUE_QUOTE_URL [StrArg venue, StrArg stock])}"
  using sent_by_Get [of w "Sprintf VENUE_QUOTE_URL [StrArg venue, StrArg stock]"
      new_QuoteResponse]
  by (auto simp add: FetchQuote_def split: prod.splits outcome.splits)

lemma FetchOrder_sent:
  "set (fst (FetchOrder c w venue stock id')) \<subseteq>
     {get_request (Sprintf VENUE_ORDER_URL [StrArg venue, StrArg stock, IntArg id'])}"
  using sent_by_Get [of w "Sprintf VENUE_ORDER_URL [StrArg venue, StrArg stock, IntArg id']"
      new_OrderResponse]
  by (auto simp add: FetchOrder_def split: prod.splits outcome.splits)

lemma FetchAcctOrders_sent:
  "set (fst (FetchAcctOrders c w venue account)) \<subseteq>
     {get_request (Sprintf ACCT_EVERY_ORDERS_URL [StrArg account, StrArg venue])}"
  using sent_by_Get [of w "Sprintf ACCT_EVERY_ORDERS_URL [StrArg account, StrArg venue]"
      new_OrdersStatusResponse]
  by (auto simp add: FetchAcctOrders_def split: prod.splits outcome.splits)

lemma FetchAcctStockOrders_sent:
  "set (fst (FetchAcctStockOrders c w venue stock account)) \<subseteq>
     {get_request (Sprintf ACCT_STOCK_ORDERS_URL [StrArg account, StrArg venue, StrArg stock])}"
  using sent_by_Get [of w
      "Sprintf ACCT_STOCK_ORDERS_URL [StrArg account, StrArg venue, StrArg stock]"
      new_OrdersStatusResponse]
  by (auto simp add: FetchAcctStockOrders_def split: prod.splits outcome.splits)

lemma PlaceOrder_sent:
  "set (fst (PlaceOrder c w venue stock order)) \<subseteq>
     {post_request (Sprintf VENUE_ORDERS_URL [StrArg venue, StrArg stock])
        (fst (Marshal w order))}"
  using sent_by_Post [of w "Sprintf VENUE_ORDERS_URL [StrArg venue, StrArg stock]"
      "fst (Marshal w order)" new_OrderResponse]
  by (auto simp add: PlaceOrder_def split: prod.splits outcome.splits)

lemma CancelOrder_sent:
  "set (fst (CancelOrder c w venue stock id')) \<subseteq>
     {delete_request (Sprintf VENUE_ORDER_URL [StrArg venue, StrArg stock, IntArg id'])}"
  using sent_by_Delete [of w "Sprintf VENUE_ORDER_URL [StrArg venue, StrArg stock, IntArg id']"
      new_OrderResponse]
  by (auto simp add: CancelOrder_def split: prod.splits outcome.splits)

lemma Heartbeat_sent: "set (fst (Heartbeat c w)) \<subseteq> {get_request HEARTBEAT_URL}"
  using sent_by_http_Get [of w HEARTBEAT_URL]
  by (auto simp add: Heartbeat_def split: prod.splits)

lemma VenueHeartbeat_sent:
  "set (fst (VenueHeartbeat c w venue)) \<subseteq>
     {get_request (Sprintf VENUE_HEARTBEAT_URL [StrArg venue])}"
  using sent_by_http_Get [of w "Sprintf VENUE_HEARTBEAT_URL [StrArg venue]"]
  by (auto simp add: VenueHeartbeat_def split: prod.splits)

lemma VenueStocks_sent:
  "set (fst (VenueStocks c w venue)) \<subseteq> {get_request (Sprintf VENUE_STOCKS_URL [StrArg venue])}"
  using sent_by_http_Get [of w "Sprintf VENUE_STOCKS_URL [StrArg venue]"]
  by (auto simp add: VenueStocks_def split: prod.splits)

lemma VenueOrders_sent:
  "set (fst (VenueOrders c w venue stock)) \<subseteq>
     {get_request (Sprintf VENUE_ORDERS_URL_main [StrArg venue, StrArg stock])}"
  using sent_by_http_Get [of w "Sprintf VENUE_ORDERS_URL_main [StrArg venue, StrArg stock]"]
  by (auto simp add: VenueOrders_def split: prod.splits)

subsection \<open>Two operations as tables over the environment\<close>

lemma CancelOrder_eq:
  "CancelOrder c w venue stock id' =
     (case url_Parse w (Sprintf VENUE_ORDER_URL [StrArg venue, StrArg stock, IntArg id']) of
        Some e \<Rightarrow> ([], Return False)
      | None \<Rightarrow>
          ([delete_request (Sprintf VENUE_ORDER_URL [StrArg venue, StrArg stock, IntArg id'])],
           case RoundTrip w
                  (delete_request
                     (Sprintf VENUE_ORDER_URL [StrArg venue, StrArg stock, IntArg id'])) of
             (resp, Some e) \<Rightarrow> Return False
           | (None, None) \<Rightarrow> Panic
           | (Some r, None) \<Rightarrow>
               (case Decode w (Response.Body r) new_OrderResponse of
                  (d, Some e) \<Rightarrow> Return False
                | (Null, None) \<Rightarrow> Panic
                | (Value v, None) \<Rightarrow> Return (Ok v \<and> \<not> Open v))))"
  by (simp add: CancelOrder_def PerformRequest_Delete after_switch_replied after_switch_nil
      split: option.splits prod.splits decoded.splits)

lemma FetchOrderbook_eq:
  "FetchOrderbook c w venue stock =
     (case url_Parse w (Sprintf VENUE_ORDERBOOK_URL [StrArg venue, StrArg stock]) of
        Some e \<Rightarrow> ([], Panic)
      | None \<Rightarrow>
          ([get_request (Sprintf VENUE_ORDERBOOK_URL [StrArg venue, StrArg stock])],
           case RoundTrip w
                  (get_request (Sprintf VENUE_ORDERBOOK_URL [StrArg venue, StrArg stock])) of
             (None, err) \<Rightarrow> Panic
           | (Some r, Some e) \<Rightarrow> Return None
           | (Some r, None) \<Rightarrow>
               (case Decode w (Response.Body r) new_OrderbookResponse of
                  (d, Some e) \<Rightarrow> Return None
                | (Null, None) \<Rightarrow> Panic
                | (Value v, None) \<Rightarrow>
                    if Ok v \<and> Venue v = venue \<and> OrderbookResponse.Symbol v = stock
                    then Return (Some v) else Return None)))"
  by (simp add: FetchOrderbook_def PerformRequest_Get after_switch_replied after_switch_nil
      after_switch_failed split: option.splits prod.splits decoded.splits)

subsection \<open>Templates filled in\<close>

lemma VENUE_ORDER_URL_example:
  "Sprintf VENUE_ORDER_URL [StrArg ''TESTEX'', StrArg ''FOOBAR'', IntArg 123] =
     ''https://api.stockfighter.io/ob/api/venues/TESTEX/stocks/FOOBAR/orders/123''"
  by (simp add: VENUE_ORDER_URL_def Itoa_def digits10.simps)

lemma ACCT_EVERY_ORDERS_URL_filled:
  "Sprintf ACCT_EVERY_ORDERS_URL [StrArg a, StrArg b] =
     ''https://api.stockfighter.io/ob/api/venues/'' @ a @ ''/accounts/'' @ b @ ''/orders''"
  by (simp add: ACCT_EVERY_ORDERS_URL_def)

lemma ACCT_STOCK_ORDERS_URL_filled:
  "Sprintf ACCT_STOCK_ORDERS_URL [StrArg a, StrArg b, StrArg c] =
     ''https://api.stockfighter.io/ob/api/venues/'' @ a @ ''/accounts/'' @ b @ ''/stocks/'' @ c @
     ''/orders''"
  by (simp add: ACCT_STOCK_ORDERS_URL_def)

section \<open>Transport failures\<close>

text \<open>
  On the GET path a request that fails with no response ends in a panic, whether the URL
  is rejected or the connection fails; with a response (a failed redirect) it ends in the
  error worded from the status code.
\<close>

lemma PerformRequest_Get_error:
  "url_Parse w url = Some e \<Longrightarrow> PerformRequest w url MethodGet None js = ([], Panic)"
  "url_Parse w url = None \<Longrightarrow> RoundTrip w (get_request url) = (None, Some e) \<Longrightarrow>
     PerformRequest w url MethodGet None js = ([get_request url], Panic)"
  "url_Parse w url = None \<Longrightarrow> RoundTrip w (get_request url) = (Some r, Some e) \<Longrightarrow>
     PerformRequest w url MethodGet None js =
       ([get_request url],
        Return (Some (errors_New (Sprintf ''Request failed: %d'' [IntArg (StatusCode r)])),
                Some js))"
  by (simp_all add: PerformRequest_Get after_switch_nil after_switch_failed)

subsection \<open>A refused connection\<close>

lemma Ping_refusing: "snd (Ping c refusing) = Panic"
  by (simp add: Ping_def PerformRequest_in_refusing)

lemma PingVenue_refusing: "snd (PingVenue c refusing venue) = Panic"
  by (simp add: PingVenue_def PerformRequest_in_refusing)

lemma FetchStocks_refusing: "snd (FetchStocks c refusing venue) = Panic"
  by (simp add: FetchStocks_def PerformRequest_in_refusing)

lemma FetchOrder_refusing: "snd (FetchOrder c refusing venue stock id') = Panic"
  by (simp add: FetchOrder_def PerformRequest_in_refusing)

lemma FetchOrderbook_refusing: "snd (FetchOrderbook c refusing venue stock) = Panic"
  by (simp add: FetchOrderbook_def PerformRequest_in_refusing)

lemma FetchAcctOrders_refusing: "snd (FetchAcctOrders c refusing venue account) = Panic"
  by (simp add: FetchAcctOrders_def PerformRequest_in_refusing)

lemma FetchAcctStockOrders_refusing:
  "snd (FetchAcctStockOrders c refusing venue stock account) = Panic"
  by (simp add: FetchAcctStockOrders_def PerformRequest_in_refusing)

lemma FetchQuote_refusing: "snd (FetchQuote c refusing venue stock) = Panic"
  by (simp add: FetchQuote_def PerformRequest_in_refusing)

lemma PlaceOrder_refusing: "snd (PlaceOrder c refusing venue stock order) = Panic"
  by (simp add: PlaceOrder_def PerformRequest_Post after_switch_nil refusing_def
      marshal_text_def)

lemma CancelOrder_refusing: "snd (CancelOrder c refusing venue stock id') = Return False"
  by (simp add: CancelOrder_eq refusing_def)

lemma Heartbeat_refusing: "snd (Heartbeat c refusing) = Return False"
  by (simp add: Heartbeat_def http_Get_refusing)

text \<open>
  Claim C1 says that an operation whose transport request fails on a connection error
  returns its failure value. The code does so on the DELETE path only, where
  \<^verbatim>\<open>PerformRequest\<close> returns the error of \<^verbatim>\<open>Do\<close> as it is, and in the earlier draft, whose
  operations return at once. On the GET and POST paths \<^verbatim>\<open>PerformRequest\<close> formats its
  error from \<^verbatim>\<open>resp.StatusCode\<close> while \<^verbatim>\<open>resp\<close> is nil: in the environment that refuses
  every connection the nine operations on those paths panic, \<^verbatim>\<open>CancelOrder\<close> returns
  false, and the draft's \<^verbatim>\<open>Heartbeat\<close> returns false.
\<close>

theorem connection_refused_panics:
  "snd (Ping c refusing) = Panic \<and>
   snd (PingVenue c refusing venue) = Panic \<and>
   snd (FetchStocks c refusing venue) = Panic \<and>
   snd (FetchOrderbook c refusing venue stock) = Panic \<and>
   snd (FetchQuote c refusing venue stock) = Panic \<and>
   snd (FetchOrder c refusing venue stock id') = Panic \<and>
   snd (FetchAcctOrders c refusing venue account) = Panic \<and>
   snd (FetchAcctStockOrders c refusing venue stock account) = Panic \<and>
   snd (PlaceOrder c refusing venue stock order) = Panic \<and>
   snd (CancelOrder c refusing venue stock id') = Return False \<and>
   snd (Heartbeat c refusing) = Return False"
  by (simp only: Ping_refusing PingVenue_refusing FetchStocks_refusing FetchOrder_refusing
      FetchOrderbook_refusing FetchAcctOrders_refusing FetchAcctStockOrders_refusing
      FetchQuote_refusing PlaceOrder_refusing CancelOrder_refusing Heartbeat_refusing
      simp_thms)

section \<open>Validation of the decoded response\<close>

text \<open>
  The operations of the finished client all test the success flag, and four of the six
  venue-scoped fetches compare the venue.
\<close>

lemma PerformRequest_Delete_in_answering:
  "PerformRequest (answering status body (Value v)) url MethodDelete None js =
     ([delete_request url], Return (None, Some v))"
  by (simp add: PerformRequest_Delete after_switch_replied answering_def)

lemma PerformRequest_Post_in_answering:
  "PerformRequest (answering status body (Value v)) url MethodPost (Some b) js =
     ([post_request url b], Return (None, Some v))"
  by (simp add: PerformRequest_Post after_switch_replied answering_def)

lemma success_flag_tested:
  "snd (Ping c (answering status body (Value (s1\<lparr>Ok := False\<rparr>)))) = Return False"
  "snd (PingVenue c (answering status body (Value (s2\<lparr>Ok := False\<rparr>))) venue) = Return False"
  "snd (FetchStocks c (answering status body (Value (s3\<lparr>Ok := False\<rparr>))) venue) = Return None"
  "snd (FetchOrderbook c (answering status body (Value (s4\<lparr>Ok := False\<rparr>))) venue stock) =
     Return None"
  "snd (FetchQuote c (answering status body (Value (s5\<lparr>Ok := False\<rparr>))) venue stock) =
     Return None"
  "snd (FetchOrder c (answering status body (Value (s6\<lparr>Ok := False\<rparr>))) venue stock id') =
     Return None"
  "snd (FetchAcctOrders c (answering status body (Value (s7\<lparr>Ok := False\<rparr>))) venue account) =
     Return None"
  "snd (FetchAcctStockOrders c (answering status body (Value (s7\<lparr>Ok := False\<rparr>)))
          venue stock account) = Return None"
  "snd (CancelOrder c (answering status body (Value (s6\<lparr>Ok := False\<rparr>))) venue stock id') =
     Return False"
  by (simp_all add: Ping_def PingVenue_def FetchStocks_def FetchOrderbook_def FetchQuote_def
      FetchOrder_def FetchAcctOrders_def FetchAcctStockOrders_def CancelOrder_def
      PerformRequest_in_answering PerformRequest_Delete_in_answering)

lemma venue_compared:
  assumes "Venue v1 \<noteq> venue" and "Venue v2 \<noteq> venue" and "Venue v3 \<noteq> venue"
  shows "snd (FetchOrder c (answering status body (Value v1)) venue stock id') = Return None"
    and "snd (FetchOrderbook c (answering status body (Value v2)) venue stock) = Return None"
    and "snd (FetchAcctOrders c (answering status body (Value v3)) venue account) = Return None"
    and "snd (FetchAcctStockOrders c (answering status body (Value v3)) venue stock account) =
           Return None"
  using assms
  by (simp_all add: FetchOrder_def FetchOrderbook_def FetchAcctOrders_def
      FetchAcctStockOrders_def PerformRequest_in_answering)

lemma decode_error_rejected:
  assumes "url_Parse w url = None"
    and "RoundTrip w (get_request url) = (Some resp, None)"
    and "Decode w (Response.Body resp) js = (d, Some e)"
  shows "\<exists>s. PerformRequest w url MethodGet None js = ([get_request url], Return (Some e, s))"
  using assms
  by (simp add: PerformRequest_Get after_switch_replied split: decoded.splits)

text \<open>
  Claim C2 says that every venue-scoped fetch fails when the decoded venue differs from
  the requested one. \<^verbatim>\<open>FetchOrder\<close>, \<^verbatim>\<open>FetchOrderbook\<close>, \<^verbatim>\<open>FetchAcctOrders\<close> and
  \<^verbatim>\<open>FetchAcctStockOrders\<close> compare \<^verbatim>\<open>s.Venue\<close> with \<^verbatim>\<open>venue\<close>; \<^verbatim>\<open>PingVenue\<close> and
  \<^verbatim>\<open>FetchQuote\<close> do not. Asked about venue TESTEX and answered, with the success flag set,
  for venue OTHEREX, \<^verbatim>\<open>PingVenue\<close> returns true and \<^verbatim>\<open>FetchQuote\<close> returns the quote, while
  \<^verbatim>\<open>FetchOrder\<close> returns nil.
\<close>

theorem venue_not_compared:
  "snd (PingVenue c (answering status body (Value \<lparr>Ok = True, Venue = ''OTHEREX''\<rparr>)) ''TESTEX'')
     = Return True \<and>
   snd (FetchQuote c
          (answering status body (Value (new_QuoteResponse\<lparr>Ok := True, Venue := ''OTHEREX''\<rparr>)))
          ''TESTEX'' ''FOOBAR'')
     = Return (Some (new_QuoteResponse\<lparr>Ok := True, Venue := ''OTHEREX''\<rparr>)) \<and>
   snd (FetchOrder c
          (answering status body (Value (new_OrderResponse\<lparr>Ok := True, Venue := ''OTHEREX''\<rparr>)))
          ''TESTEX'' ''FOOBAR'' 123)
     = Return None"
  by (simp add: PingVenue_def FetchQuote_def FetchOrder_def PerformRequest_in_answering)

text \<open>
  Claim C3 says that every operation that decodes a response with a success flag fails
  when the flag is false. The operations of the finished client test \<^verbatim>\<open>s.Ok\<close>, and
  \<^verbatim>\<open>Ping\<close> against the body of the specification's example returns false. The draft's
  \<^verbatim>\<open>VenueOrders\<close> and \<^verbatim>\<open>VenueStocks\<close> do not test it: answered with status 200 and a
  response whose flag is false, \<^verbatim>\<open>VenueOrders\<close> returns that response and \<^verbatim>\<open>VenueStocks\<close>
  its symbols.
\<close>

theorem draft_returns_unsuccessful_response:
  "snd (VenueOrders c (answering 200 body (Value (v\<lparr>Ok := False\<rparr>))) venue stock) =
     Return (Some (v\<lparr>Ok := False\<rparr>)) \<and>
   snd (VenueStocks c
          (answering 200 body (Value \<lparr>Ok = False, StocksResponse.Symbols = symbols\<rparr>)) venue) =
     Return symbols \<and>
   snd (Ping c (answering 200 body_down (Value \<lparr>Ok = False, Error = ''down''\<rparr>))) = Return False"
  by (simp add: VenueOrders_def VenueStocks_def Ping_def http_Get_answering
      Decode_into_struct_answering PerformRequest_in_answering)

section \<open>Cancelling an order\<close>

text \<open>
  When \<^verbatim>\<open>CancelOrder\<close> returns true, in terms of the code and of the environment: the call
  of \<^verbatim>\<open>PerformRequest\<close> returns no error and the order it decoded has its success flag set
  and its open flag clear; that is, the URL is accepted, \<^verbatim>\<open>Do\<close> returns a response and no
  error, and the body decodes without error to such an order. The status code of the
  response appears in neither condition.
\<close>

lemma CancelOrder_true_iff:
  "(snd (CancelOrder c w venue stock id') = Return True \<longleftrightarrow>
      (\<exists>sent v.
         PerformRequest w (Sprintf VENUE_ORDER_URL [StrArg venue, StrArg stock, IntArg id'])
           MethodDelete None new_OrderResponse = (sent, Return (None, Some v)) \<and>
         Ok v \<and> \<not> Open v)) \<and>
   (snd (CancelOrder c w venue stock id') = Return True \<longleftrightarrow>
      (\<exists>resp v.
         url_Parse w (Sprintf VENUE_ORDER_URL [StrArg venue, StrArg stock, IntArg id']) = None \<and>
         RoundTrip w
           (delete_request (Sprintf VENUE_ORDER_URL [StrArg venue, StrArg stock, IntArg id'])) =
           (Some resp, None) \<and>
         Decode w (Response.Body resp) new_OrderResponse = (Value v, None) \<and>
         Ok v \<and> \<not> Open v))"
proof
  show "snd (CancelOrder c w venue stock id') = Return True \<longleftrightarrow>
      (\<exists>sent v.
         PerformRequest w (Sprintf VENUE_ORDER_URL [StrArg venue, StrArg stock, IntArg id'])
           MethodDelete None new_OrderResponse = (sent, Return (None, Some v)) \<and>
         Ok v \<and> \<not> Open v)"
    by (auto simp add: CancelOrder_def split: prod.splits outcome.splits option.splits
        if_splits)
next
  show "snd (CancelOrder c w venue stock id') = Return True \<longleftrightarrow>
      (\<exists>resp v.
         url_Parse w (Sprintf VENUE_ORDER_URL [StrArg venue, StrArg stock, IntArg id']) = None \<and>
         RoundTrip w
           (delete_request (Sprintf VENUE_ORDER_URL [StrArg venue, StrArg stock, IntArg id'])) =
           (Some resp, None) \<and>
         Decode w (Response.Body resp) new_OrderResponse = (Value v, None) \<and>
         Ok v \<and> \<not> Open v)"
    by (auto simp add: CancelOrder_eq split: option.splits prod.splits decoded.splits)
qed

text \<open>
  Claim C4 says that \<^verbatim>\<open>CancelOrder(venue, stock, id)\<close> returns true if and only if the
  transport call succeeds, the decoded success flag is true and the decoded order's open
  flag is false. The specification counts a response with a non-success status as a
  transport failure, so the claim has the call return false on such a response. The
  DELETE path of \<^verbatim>\<open>PerformRequest\<close> never reads the status code: answered with status 500
  and a body that decodes to a closed order whose success flag is true,
  \<^verbatim>\<open>CancelOrder("TESTEX", "FOOBAR", 123)\<close> returns true, as it does for every status code,
  venue, stock and id. The two examples of the specification, answered with status 200,
  hold: true against the closed order, false against the same order still open.
\<close>

theorem CancelOrder_status_not_checked:
  "snd (CancelOrder c
          (answering 500 body_closed
             (Value (new_OrderResponse\<lparr>Ok := True, Venue := ''TESTEX'', Open := False\<rparr>)))
          ''TESTEX'' ''FOOBAR'' 123) = Return True \<and>
   snd (CancelOrder c (answering status body (Value (v\<lparr>Ok := True, Open := False\<rparr>)))
          venue stock id') = Return True \<and>
   snd (CancelOrder c
          (answering 200 body_closed
             (Value (new_OrderResponse\<lparr>Ok := True, Venue := ''TESTEX'', Open := False\<rparr>)))
          ''TESTEX'' ''FOOBAR'' 123) = Return True \<and>
   snd (CancelOrder c
          (answering 200 body_open
             (Value (new_OrderResponse\<lparr>Ok := True, Venue := ''TESTEX'', Open := True\<rparr>)))
          ''TESTEX'' ''FOOBAR'' 123) = Return False"
  by (simp add: CancelOrder_def PerformRequest_Delete_in_answering)

section \<open>Fetching an order book\<close>

text \<open>
  Claim C5. \<^verbatim>\<open>FetchOrderbook(venue, stock)\<close> returns a non-nil order book only when it is
  the decoded response and its symbol is the requested stock; when the response decodes
  to an order book with another symbol, with or without a decoding error, the call
  returns nil.
\<close>

theorem FetchOrderbook_symbol:
  "(snd (FetchOrderbook c w venue stock) = Return (Some r) \<longrightarrow>
      OrderbookResponse.Symbol r = stock \<and>
      (\<exists>resp. RoundTrip w
                (get_request (Sprintf VENUE_ORDERBOOK_URL [StrArg venue, StrArg stock])) =
                (Some resp, None) \<and>
              Decode w (Response.Body resp) new_OrderbookResponse = (Value r, None))) \<and>
   (url_Parse w (Sprintf VENUE_ORDERBOOK_URL [StrArg venue, StrArg stock]) = None \<and>
    RoundTrip w (get_request (Sprintf VENUE_ORDERBOOK_URL [StrArg venue, StrArg stock])) =
      (Some resp', None) \<and>
    Decode w (Response.Body resp') new_OrderbookResponse = (Value v, err) \<and>
    OrderbookResponse.Symbol v \<noteq> stock \<longrightarrow>
      snd (FetchOrderbook c w venue stock) = Return None)"
  by (auto simp add: FetchOrderbook_eq split: option.splits prod.splits decoded.splits if_splits)

theorem FetchOrderbook_symbol_witness:
  "snd (FetchOrderbook \<lparr>apiKey = ''key''\<rparr>
          (answering 200 body_book
             (Value (new_OrderbookResponse
                \<lparr>Ok := True, Venue := ''TESTEX'', OrderbookResponse.Symbol := ''FOOBAR''\<rparr>)))
          ''TESTEX'' ''FOOBAR'') =
     Return (Some (new_OrderbookResponse
                \<lparr>Ok := True, Venue := ''TESTEX'', OrderbookResponse.Symbol := ''FOOBAR''\<rparr>)) \<and>
   OrderbookResponse.Symbol
     (new_OrderbookResponse
        \<lparr>Ok := True, Venue := ''TESTEX'', OrderbookResponse.Symbol := ''FOOBAR''\<rparr>) = ''FOOBAR'' \<and>
   OrderbookResponse.Symbol
     (new_OrderbookResponse
        \<lparr>Ok := True, Venue := ''TESTEX'', OrderbookResponse.Symbol := ''BARFOO''\<rparr>) \<noteq> ''FOOBAR'' \<and>
   snd (FetchOrderbook \<lparr>apiKey = ''key''\<rparr>
          (answering 200 body_other_book
             (Value (new_OrderbookResponse
                \<lparr>Ok := True, Venue := ''TESTEX'', OrderbookResponse.Symbol := ''BARFOO''\<rparr>)))
          ''TESTEX'' ''FOOBAR'') = Return None"
  using FetchOrderbook_symbol [where c = "\<lparr>apiKey = ''key''\<rparr>"
      and w = "answering 200 body_book
             (Value (new_OrderbookResponse
                \<lparr>Ok := True, Venue := ''TESTEX'', OrderbookResponse.Symbol := ''FOOBAR''\<rparr>))"
      and venue = "''TESTEX''" and stock = "''FOOBAR''"
      and r = "new_OrderbookResponse
                \<lparr>Ok := True, Venue := ''TESTEX'', OrderbookResponse.Symbol := ''FOOBAR''\<rparr>"]
    FetchOrderbook_symbol [where c = "\<lparr>apiKey = ''key''\<rparr>"
      and w = "answering 200 body_other_book
             (Value (new_OrderbookResponse
                \<lparr>Ok := True, Venue := ''TESTEX'', OrderbookResponse.Symbol := ''BARFOO''\<rparr>))"
      and venue = "''TESTEX''" and stock = "''FOOBAR''"
      and resp' = "\<lparr>StatusCode = 200, Response.Body = body_other_book\<rparr>"
      and v = "new_OrderbookResponse
                \<lparr>Ok := True, Venue := ''TESTEX'', OrderbookResponse.Symbol := ''BARFOO''\<rparr>"
      and err = None]
  by (simp add: FetchOrderbook_eq answering_def)

section \<open>The status code\<close>

text \<open>
  Claim C6 says that a response with a non-success status yields the operation's failure
  result whatever its body. \<^verbatim>\<open>net/http\<close> reports such a response with no error, and
  \<^verbatim>\<open>PerformRequest\<close> reads \<^verbatim>\<open>resp.StatusCode\<close> only to word the error of a request that
  already failed. Answered with status 500 and a body whose success flag is true, \<^verbatim>\<open>Ping\<close>
  returns true, as it does for every status; the draft's \<^verbatim>\<open>Heartbeat\<close>, which tests
  \<^verbatim>\<open>resp.StatusCode != 200\<close>, returns false.
\<close>

theorem status_code_not_checked:
  "snd (Ping c (answering 500 body_up (Value \<lparr>Ok = True, Error = ''''\<rparr>))) = Return True \<and>
   snd (Ping c (answering status body (Value \<lparr>Ok = True, Error = e\<rparr>))) = Return True \<and>
   snd (Heartbeat c (answering 500 body_up (Value \<lparr>Ok = True, Error = ''''\<rparr>))) = Return False"
  by (simp add: Ping_def Heartbeat_def PerformRequest_in_answering http_Get_answering)

section \<open>Placing an order\<close>

lemma PlaceOrder_nil: "snd (PlaceOrder c w venue stock order) \<noteq> Return (Some r)"
  by (simp add: PlaceOrder_def split: prod.splits outcome.splits)

text \<open>
  Claim C7 says that \<^verbatim>\<open>PlaceOrder\<close> posts the serialized order as the request body and
  returns the decoded response when the transport succeeds and the success flag is true.
  The code serializes the order and issues the POST, but \<^verbatim>\<open>http.Post(url, *body, nil)\<close>
  passes the serialized order as the content type and nil as the body, and the function
  ends with \<^verbatim>\<open>return nil\<close> without looking at the decoded response. In no environment does
  it return a response; answered with status 200 and a placed order whose success flag is
  true, it has sent one POST with no body and returns nil.
\<close>

theorem PlaceOrder_returns_nil:
  "snd (PlaceOrder c w venue stock order) \<noteq> Return (Some r) \<and>
   PlaceOrder c (answering 200 body (Value (new_OrderResponse\<lparr>Ok := True, Venue := venue\<rparr>)))
     venue stock order =
     ([\<lparr>Method = ''POST'', URL = Sprintf VENUE_ORDERS_URL [StrArg venue, StrArg stock],
        Header = [(''Content-Type'', fst (marshal_text order))], Request.Body = None\<rparr>],
      Return None)"
  by (simp add: PlaceOrder_nil)
    (simp add: PlaceOrder_def PerformRequest_Post after_switch_replied answering_def
      marshal_text_def post_request_def)

section \<open>The account order listings\<close>

text \<open>
  Claim C8 says that \<^verbatim>\<open>FetchAcctOrders\<close> and \<^verbatim>\<open>FetchAcctStockOrders\<close> put the venue in the
  venue slot of their templates and the account in the account slot. Both calls of
  \<^verbatim>\<open>fmt.Sprintf\<close> list \<^verbatim>\<open>account\<close> before \<^verbatim>\<open>venue\<close>, so the URL requested has the account
  after \<^verbatim>\<open>/venues/\<close> and the venue after \<^verbatim>\<open>/accounts/\<close>; the stock is in its slot.
\<close>

theorem account_orders_url_swapped:
  "fst (FetchAcctOrders c (answering status body d) venue account) =
     [get_request
        (''https://api.stockfighter.io/ob/api/venues/'' @ account @ ''/accounts/'' @ venue @
         ''/orders'')] \<and>
   fst (FetchAcctStockOrders c (answering status body d') venue stock account) =
     [get_request
        (''https://api.stockfighter.io/ob/api/venues/'' @ account @ ''/accounts/'' @ venue @
         ''/stocks/'' @ stock @ ''/orders'')] \<and>
   fst (FetchAcctOrders c (answering status body d) ''TESTEX'' ''EXB123456'') =
     [get_request ''https://api.stockfighter.io/ob/api/venues/EXB123456/accounts/TESTEX/orders'']"
  by (simp add: FetchAcctOrders_def FetchAcctStockOrders_def PerformRequest_in_answering
      ACCT_EVERY_ORDERS_URL_filled ACCT_STOCK_ORDERS_URL_filled)

section \<open>The API key\<close>

text \<open>
  Claim C9. The stored API key influences no operation: with two clients, whatever their
  keys, every operation sends the same requests and has the same outcome in the same
  environment, and the only request an operation sends is the one built from its
  arguments: a GET or DELETE with no header and no body, or for \<^verbatim>\<open>PlaceOrder\<close> a POST
  whose one header is the content type. This holds of the draft's operations, of \<^verbatim>\<open>Run\<close>
  and of \<^verbatim>\<open>main\<close> as well.
\<close>

theorem apiKey_never_used:
  "(Ping c wp = Ping c' wp \<and>
    set (fst (Ping c wp)) \<subseteq> {get_request HEARTBEAT_URL}) \<and>
   (PingVenue c wv venue = PingVenue c' wv venue \<and>
    set (fst (PingVenue c wv venue)) \<subseteq>
      {get_request (Sprintf VENUE_HEARTBEAT_URL [StrArg venue])}) \<and>
   (FetchStocks c ws venue = FetchStocks c' ws venue \<and>
    set (fst (FetchStocks c ws venue)) \<subseteq>
      {get_request (Sprintf VENUE_STOCKS_URL [StrArg venue])}) \<and>
   (FetchOrderbook c wb venue stock = FetchOrderbook c' wb venue stock \<and>
    set (fst (FetchOrderbook c wb venue stock)) \<subseteq>
      {get_request (Sprintf VENUE_ORDERBOOK_URL [StrArg venue, StrArg stock])}) \<and>
   (FetchQuote c wq venue stock = FetchQuote c' wq venue stock \<and>
    set (fst (FetchQuote c wq venue stock)) \<subseteq>
      {get_request (Sprintf VENUE_QUOTE_URL [StrArg venue, StrArg stock])}) \<and>
   (FetchOrder c wo venue stock id' = FetchOrder c' wo venue stock id' \<and>
    set (fst (FetchOrder c wo venue stock id')) \<subseteq>
      {get_request (Sprintf VENUE_ORDER_URL [StrArg venue, StrArg stock, IntArg id'])}) \<and>
   (FetchAcctOrders c wa venue account = FetchAcctOrders c' wa venue account \<and>
    set (fst (FetchAcctOrders c wa venue account)) \<subseteq>
      {get_request (Sprintf ACCT_EVERY_ORDERS_URL [StrArg account, StrArg venue])}) \<and>
   (FetchAcctStockOrders c wa venue stock account =
      FetchAcctStockOrders c' wa venue stock account \<and>
    set (fst (FetchAcctStockOrders c wa venue stock account)) \<subseteq>
      {get_request
         (Sprintf ACCT_STOCK_ORDERS_URL [StrArg account, StrArg venue, StrArg stock])}) \<and>
   (PlaceOrder c wo venue stock order = PlaceOrder c' wo venue stock order \<and>
    set (fst (PlaceOrder c wo venue stock order)) \<subseteq>
      {post_request (Sprintf VENUE_ORDERS_URL [StrArg venue, StrArg stock])
         (fst (Marshal wo order))}) \<and>
   (CancelOrder c wo venue stock id' = CancelOrder c' wo venue stock id' \<and>
    set (fst (CancelOrder c wo venue stock id')) \<subseteq>
      {delete_request (Sprintf VENUE_ORDER_URL [StrArg venue, StrArg stock, IntArg id'])}) \<and>
   (Heartbeat c wp = Heartbeat c' wp \<and>
    set (fst (Heartbeat c wp)) \<subseteq> {get_request HEARTBEAT_URL}) \<and>
   (VenueHeartbeat c wp venue = VenueHeartbeat c' wp venue \<and>
    set (fst (VenueHeartbeat c wp venue)) \<subseteq>
      {get_request (Sprintf VENUE_HEARTBEAT_URL [StrArg venue])}) \<and>
   (VenueStocks c wd venue = VenueStocks c' wd venue \<and>
    set (fst (VenueStocks c wd venue)) \<subseteq>
      {get_request (Sprintf VENUE_STOCKS_URL [StrArg venue])}) \<and>
   (VenueOrders c wm venue stock = VenueOrders c' wm venue stock \<and>
    set (fst (VenueOrders c wm venue stock)) \<subseteq>
      {get_request (Sprintf VENUE_ORDERS_URL_main [StrArg venue, StrArg stock])}) \<and>
   (Run c = Run c' \<and> fst (Run c) = []) \<and>
   (main (apiKey c) = main (apiKey c') \<and> fst (main (apiKey c)) = [])"
proof (intro conjI)
  show "Ping c wp = Ping c' wp"
    by (simp add: Ping_def)
  show "PingVenue c wv venue = PingVenue c' wv venue"
    by (simp add: PingVenue_def)
  show "FetchStocks c ws venue = FetchStocks c' ws venue"
    by (simp add: FetchStocks_def)
  show "FetchOrderbook c wb venue stock = FetchOrderbook c' wb venue stock"
    by (simp add: FetchOrderbook_def)
  show "FetchQuote c wq venue stock = FetchQuote c' wq venue stock"
    by (simp add: FetchQuote_def)
  show "FetchOrder c wo venue stock id' = FetchOrder c' wo venue stock id'"
    by (simp add: FetchOrder_def)
  show "FetchAcctOrders c wa venue account = FetchAcctOrders c' wa venue account"
    by (simp add: FetchAcctOrders_def)
  show "FetchAcctStockOrders c wa venue stock account =
          FetchAcctStockOrders c' wa venue stock account"
    by (simp add: FetchAcctStockOrders_def)
  show "PlaceOrder c wo venue stock order = PlaceOrder c' wo venue stock order"
    by (simp add: PlaceOrder_def)
  show "CancelOrder c wo venue stock id' = CancelOrder c' wo venue stock id'"
    by (simp add: CancelOrder_def)
  show "Heartbeat c wp = Heartbeat c' wp"
    by (simp add: Heartbeat_def)
  show "VenueHeartbeat c wp venue = VenueHeartbeat c' wp venue"
    by (simp add: VenueHeartbeat_def)
  show "VenueStocks c wd venue = VenueStocks c' wd venue"
    by (simp add: VenueStocks_def)
  show "VenueOrders c wm venue stock = VenueOrders c' wm venue stock"
    by (simp add: VenueOrders_def)
  show "Run c = Run c'" and "fst (Run c) = []"
    by (simp_all add: Run_def)
  show "main (apiKey c) = main (apiKey c')" and "fst (main (apiKey c)) = []"
    by (simp_all add: main_def Run_def)
qed (rule Ping_sent PingVenue_sent FetchStocks_sent FetchOrderbook_sent FetchQuote_sent
    FetchOrder_sent FetchAcctOrders_sent FetchAcctStockOrders_sent PlaceOrder_sent
    CancelOrder_sent Heartbeat_sent VenueHeartbeat_sent VenueStocks_sent VenueOrders_sent)+

theorem apiKey_never_used_witness:
  "\<lparr>apiKey = ''first key''\<rparr> \<noteq> \<lparr>apiKey = ''second key''\<rparr> \<and>
   Ping \<lparr>apiKey = ''first key''\<rparr> (answering 200 body_up (Value \<lparr>Ok = True, Error = ''''\<rparr>)) =
     Ping \<lparr>apiKey = ''second key''\<rparr> (answering 200 body_up (Value \<lparr>Ok = True, Error = ''''\<rparr>)) \<and>
   Ping \<lparr>apiKey = ''first key''\<rparr> (answering 200 body_up (Value \<lparr>Ok = True, Error = ''''\<rparr>)) =
     ([\<lparr>Method = ''GET'', URL = ''https://api.stockfighter.io/ob/api/heartbeat'', Header = [],
        Request.Body = None\<rparr>],
      Return True)"
  using apiKey_never_used [where c = "\<lparr>apiKey = ''first key''\<rparr>"
      and c' = "\<lparr>apiKey = ''second key''\<rparr>"
      and wp = "answering 200 body_up (Value \<lparr>Ok = True, Error = ''''\<rparr>)"]
  by (simp add: Ping_def PerformRequest_in_answering get_request_def HEARTBEAT_URL_def)

section \<open>Cancelling an order for another venue\<close>

text \<open>
  Claim C10. \<^verbatim>\<open>CancelOrder\<close> does not compare the venue of the decoded order with the
  venue it was called with: when the transport call succeeds, the success flag is true and
  the open flag is false, it returns true whatever the decoded venue is. The witness is a
  response that names another venue.
\<close>

theorem CancelOrder_ignores_venue:
  assumes "url_Parse w (Sprintf VENUE_ORDER_URL [StrArg venue, StrArg stock, IntArg id']) = None"
    and "RoundTrip w
           (delete_request (Sprintf VENUE_ORDER_URL [StrArg venue, StrArg stock, IntArg id'])) =
         (Some resp, None)"
    and "Decode w (Response.Body resp) new_OrderResponse = (Value v, None)"
    and "Ok v" and "\<not> Open v"
  shows "snd (CancelOrder c w venue stock id') = Return True"
  using assms by (simp add: CancelOrder_eq)

theorem CancelOrder_ignores_venue_witness:
  "Venue (new_OrderResponse\<lparr>Ok := True, Venue := ''OTHEREX'', Open := False\<rparr>) \<noteq> ''TESTEX'' \<and>
   snd (CancelOrder \<lparr>apiKey = ''key''\<rparr>
          (answering 200 body_other
             (Value (new_OrderResponse\<lparr>Ok := True, Venue := ''OTHEREX'', Open := False\<rparr>)))
          ''TESTEX'' ''FOOBAR'' 123) = Return True"
  using CancelOrder_ignores_venue [of
      "answering 200 body_other
         (Value (new_OrderResponse\<lparr>Ok := True, Venue := ''OTHEREX'', Open := False\<rparr>))"
      "''TESTEX''" "''FOOBAR''" 123 "\<lparr>StatusCode = 200, Response.Body = body_other\<rparr>"
      "new_OrderResponse\<lparr>Ok := True, Venue := ''OTHEREX'', Open := False\<rparr>"
      "\<lparr>apiKey = ''key''\<rparr>"]
  by (simp add: answering_def)

end
